theory Spec2Isabelle
  imports Complex_Main
begin

section \<open>Data model of ukol2.py\<close>

text \<open>
  Python floats are idealised as real numbers: \<open>math.sin\<close>, \<open>math.cos\<close> and
  \<open>math.atan2\<close> are the real functions, \<open>math.radians\<close> multiplies by \<open>pi / 180\<close>,
  and \<open>math.sqrt\<close> raises \<open>ValueError\<close> (math domain error) on a negative argument.
  Rounding, infinities and NaN are outside the model.
\<close>

datatype error =
    MathDomainError      \<comment> \<open>\<open>ValueError('math domain error')\<close> of \<open>math.sqrt\<close>\<close>
  | EmptySequenceError   \<comment> \<open>\<open>ValueError\<close> of \<open>min\<close> on an empty iterable\<close>
  | InvalidFileError     \<comment> \<open>\<open>ValueError('Invalid coordinates file')\<close>\<close>
  | FloatParseError      \<comment> \<open>\<open>ValueError\<close> of \<open>float\<close> on a string that is no number\<close>
  | KeyError             \<comment> \<open>a row without the column \<open>value\<close>\<close>
  | TypeError            \<comment> \<open>\<open>float(None)\<close>: a short row, filled up with \<open>None\<close>\<close>

fun is_ValueError :: "error \<Rightarrow> bool" where
  "is_ValueError MathDomainError = True"
| "is_ValueError EmptySequenceError = True"
| "is_ValueError InvalidFileError = True"
| "is_ValueError FloatParseError = True"
| "is_ValueError KeyError = False"
| "is_ValueError TypeError = False"

record Coordinate =
  latitude :: real
  longitude :: real

record City = Coordinate +
  name :: string

definition EARTH_RADIUS :: real where
  "EARTH_RADIUS = 6371"

subsection \<open>The functions of the \<open>math\<close> module\<close>

definition radians :: "real \<Rightarrow> real" where
  "radians x = x * pi / 180"

definition py_sqrt :: "real \<Rightarrow> error + real" where
  "py_sqrt x = (if x < 0 then Inl MathDomainError else Inr (sqrt x))"

definition atan2 :: "real \<Rightarrow> real \<Rightarrow> real" where
  "atan2 y x =
     (if 0 < x then arctan (y / x)
      else if x < 0 \<and> 0 \<le> y then arctan (y / x) + pi
      else if x < 0 \<and> y < 0 then arctan (y / x) - pi
      else if 0 < y then pi / 2
      else if y < 0 then - (pi / 2)
      else 0)"

subsection \<open>\<open>Coordinate.distance\<close>\<close>

text \<open>
  The cross term is written as in the source: \<open>radians(c1.latitude)\<close> multiplied by
  \<open>cos(radians(c2.latitude))\<close>. A \<open>City\<close> is a \<open>Coordinate\<close>, so both arguments
  are record schemes.
\<close>

definition hav_a :: "('x Coordinate_scheme) \<Rightarrow> ('y Coordinate_scheme) \<Rightarrow> real" where
  "hav_a c1 c2 =
     (let dlat = radians (latitude c2 - latitude c1);
          dlon = radians (longitude c2 - longitude c1)
      in sin (dlat / 2) * sin (dlat / 2)
         + radians (latitude c1) * cos (radians (latitude c2))
           * sin (dlon / 2) * sin (dlon / 2))"

definition distance :: "('x Coordinate_scheme) \<Rightarrow> ('y Coordinate_scheme) \<Rightarrow> error + real" where
  "distance c1 c2 =
     (let a = hav_a c1 c2 in
      case py_sqrt a of
        Inl e \<Rightarrow> Inl e
      | Inr sa \<Rightarrow>
          (case py_sqrt (1 - a) of
             Inl e \<Rightarrow> Inl e
           | Inr sb \<Rightarrow> Inr (EARTH_RADIUS * (2 * atan2 sa sb))))"

definition new_Coordinate :: "real \<Rightarrow> real \<Rightarrow> Coordinate" where
  "new_Coordinate la lo = \<lparr>latitude = la, longitude = lo\<rparr>"

definition new_City :: "string \<Rightarrow> real \<Rightarrow> real \<Rightarrow> City" where
  "new_City n la lo = \<lparr>latitude = la, longitude = lo, name = n\<rparr>"

text \<open>
  The angle of the last two lines of \<open>distance\<close>, as a function of \<open>a\<close>.
\<close>

definition hav_angle :: "real \<Rightarrow> real" where
  "hav_angle a = 2 * atan2 (sqrt a) (sqrt (1 - a))"

subsection \<open>The built-in \<open>min\<close> with a key function\<close>

text \<open>
  \<open>min(iterable, key=f)\<close> walks the iterable once. The key of each item is computed
  when the item is reached, so an exception of the key function ends the walk. The first
  item becomes the candidate; a later item replaces it only when its key is strictly
  smaller. An empty iterable raises \<open>ValueError\<close>.
\<close>

fun min_loop :: "('a \<Rightarrow> error + real) \<Rightarrow> 'a list \<Rightarrow> ('a \<times> real) option \<Rightarrow> error + 'a" where
  "min_loop key [] None = Inl EmptySequenceError"
| "min_loop key [] (Some (minitem, minval)) = Inr minitem"
| "min_loop key (item # rest) best =
     (case key item of
        Inl e \<Rightarrow> Inl e
      | Inr v \<Rightarrow>
          (case best of
             None \<Rightarrow> min_loop key rest (Some (item, v))
           | Some (minitem, minval) \<Rightarrow>
               if v < minval then min_loop key rest (Some (item, v))
               else min_loop key rest best))"

definition py_min :: "('a \<Rightarrow> error + real) \<Rightarrow> 'a list \<Rightarrow> error + 'a" where
  "py_min key xs = min_loop key xs None"

subsection \<open>\<open>write_closest_cities\<close>\<close>

text \<open>
  The expression \<open>min(cities, key=lambda city: Coordinate.distance(city, coordinate))\<close>
  of the loop body: the city is the first argument of \<open>distance\<close>, the coordinate the
  second.
\<close>

definition closest_city :: "Coordinate \<Rightarrow> City list \<Rightarrow> error + City" where
  "closest_city coordinate cities = py_min (\<lambda>city. distance city coordinate) cities"

text \<open>
  The output file is the list of the rows written so far. The function returns the
  file together with the exception that ended it, if any: the \<open>with\<close> block closes
  the file on the way out, so the rows written before an exception stay.
\<close>

datatype cell = Num real | Str string

definition closest_cities_header :: "cell list" where
  "closest_cities_header = [Str ''longitude'', Str ''longtitude'', Str ''city'']"

fun closest_cities_loop ::
  "Coordinate list \<Rightarrow> City list \<Rightarrow> cell list list \<Rightarrow> cell list list \<times> error option" where
  "closest_cities_loop [] cities file = (file, None)"
| "closest_cities_loop (coordinate # rest) cities file =
     (case closest_city coordinate cities of
        Inl e \<Rightarrow> (file, Some e)
      | Inr c \<Rightarrow>
          closest_cities_loop rest cities
            (file @ [[Num (latitude coordinate), Num (longitude coordinate), Str (name c)]]))"

definition write_closest_cities ::
  "Coordinate list \<Rightarrow> City list \<Rightarrow> cell list list \<times> error option" where
  "write_closest_cities coordinates cities =
     closest_cities_loop coordinates cities [closest_cities_header]"

subsection \<open>\<open>parse_coordinates\<close>\<close>

text \<open>
  The input is the list of rows that \<open>csv.DictReader\<close> yields: each row maps a column
  name to its field, or to \<open>None\<close> where the line was too short for the column. The
  conversion \<open>float\<close> of a string is a parameter \<open>parse\<close>, \<open>None\<close> where Python
  raises \<open>ValueError\<close>.
\<close>

type_synonym row = "string \<rightharpoonup> string option"

definition row_value :: "row \<Rightarrow> error + string option" where
  "row_value r = (case r ''value'' of None \<Rightarrow> Inl KeyError | Some v \<Rightarrow> Inr v)"

definition py_float :: "(string \<Rightarrow> real option) \<Rightarrow> string option \<Rightarrow> error + real" where
  "py_float parse v =
     (case v of
        None \<Rightarrow> Inl TypeError
      | Some s \<Rightarrow> (case parse s of None \<Rightarrow> Inl FloatParseError | Some x \<Rightarrow> Inr x))"

definition row_float :: "(string \<Rightarrow> real option) \<Rightarrow> row \<Rightarrow> error + real" where
  "row_float parse r = (case row_value r of Inl e \<Rightarrow> Inl e | Inr v \<Rightarrow> py_float parse v)"

fun parse_loop ::
  "(string \<Rightarrow> real option) \<Rightarrow> row list \<Rightarrow> Coordinate list \<Rightarrow> error + Coordinate list" where
  "parse_loop parse [] coordinates = Inr coordinates"
| "parse_loop parse [lat_row] coordinates = Inl InvalidFileError"
| "parse_loop parse (lat_row # lon_row # rest) coordinates =
     (case row_float parse lat_row of
        Inl e \<Rightarrow> Inl e
      | Inr la \<Rightarrow>
          (case row_float parse lon_row of
             Inl e \<Rightarrow> Inl e
           | Inr lo \<Rightarrow> parse_loop parse rest (coordinates @ [new_Coordinate la lo])))"

definition parse_coordinates :: "(string \<Rightarrow> real option) \<Rightarrow> row list \<Rightarrow> error + Coordinate list" where
  "parse_coordinates parse rows = parse_loop parse rows []"

section \<open>Definitions in the words of the specification\<close>

text \<open>
  Section 4.1 of the specification: the cross term is
  \<open>cos(radians(lat1)) \<cdot> cos(radians(lat2)) \<cdot> sin\<^sup>2(\<Delta>lon/2)\<close>.
\<close>

definition spec_haversine_a :: "Coordinate \<Rightarrow> Coordinate \<Rightarrow> real" where
  "spec_haversine_a p1 p2 =
     (sin (radians (latitude p2 - latitude p1) / 2))\<^sup>2
     + cos (radians (latitude p1)) * cos (radians (latitude p2))
       * (sin (radians (longitude p2 - longitude p1) / 2))\<^sup>2"

definition spec_haversine :: "Coordinate \<Rightarrow> Coordinate \<Rightarrow> real" where
  "spec_haversine p1 p2 =
     6371 * (2 * atan2 (sqrt (spec_haversine_a p1 p2)) (sqrt (1 - spec_haversine_a p1 p2)))"

text \<open>
  Tolerances of section 8: an absolute one (``within 0.1 km'') and a relative one
  (``within 1e-9 relative tolerance''). A raised exception is within no tolerance.
\<close>

definition result_within :: "real \<Rightarrow> real \<Rightarrow> error + real \<Rightarrow> bool" where
  "result_within tol target r =
     (case r of Inl e \<Rightarrow> False | Inr x \<Rightarrow> \<bar>x - target\<bar> \<le> tol)"

definition results_close :: "real \<Rightarrow> error + real \<Rightarrow> error + real \<Rightarrow> bool" where
  "results_close rel r1 r2 =
     (case r1 of
        Inl e \<Rightarrow> False
      | Inr x \<Rightarrow> (case r2 of Inl e \<Rightarrow> False | Inr y \<Rightarrow> \<bar>x - y\<bar> \<le> rel * max \<bar>x\<bar> \<bar>y\<bar>))"

text \<open>
  Section 4.2 of the specification: the linear scan computes
  \<open>distance(query, candidate)\<close>, the query first.
\<close>

definition spec_nearest_query_first :: "Coordinate \<Rightarrow> City list \<Rightarrow> error + City" where
  "spec_nearest_query_first query candidates =
     py_min (\<lambda>candidate. distance query candidate) candidates"

text \<open>
  The pairing of consecutive values: values 0 and 1 make the first coordinate
  (latitude, then longitude), values 2 and 3 the second, and so on.
\<close>

fun pair_up :: "real list \<Rightarrow> Coordinate list" where
  "pair_up (la # lo # rest) = new_Coordinate la lo # pair_up rest"
| "pair_up rest = []"

text \<open>
  The exception of the first row, in list order, whose \<open>value\<close> field does not
  convert to a float; \<open>None\<close> when every row converts.
\<close>

fun first_error :: "(string \<Rightarrow> real option) \<Rightarrow> row list \<Rightarrow> error option" where
  "first_error parse [] = None"
| "first_error parse (r # rs) =
     (case row_float parse r of Inl e \<Rightarrow> Some e | Inr x \<Rightarrow> first_error parse rs)"

section \<open>Example inputs\<close>

text \<open>
  A conversion that knows the strings \<open>50\<close> and \<open>14\<close>, and the row with one column
  \<open>value\<close>; a short line leaves the field \<open>None\<close>.
\<close>

definition float_example :: "string \<Rightarrow> real option" where
  "float_example s =
     (if s = ''50'' then Some 50 else if s = ''14'' then Some 14 else None)"

definition row_of_value :: "string option \<Rightarrow> row" where
  "row_of_value v = [''value'' \<mapsto> v]"

section \<open>Trigonometric facts\<close>

lemma atan2_range:
  assumes "0 \<le> y" "0 \<le> x"
  shows "0 \<le> atan2 y x \<and> atan2 y x \<le> pi / 2"
proof (cases "0 < x")
  case True
  then have "0 \<le> y / x" using assms by simp
  then have "0 \<le> arctan (y / x)" by simp
  moreover have "arctan (y / x) < pi / 2" by (rule arctan_ubound)
  ultimately show ?thesis using True by (simp add: atan2_def)
next
  case False
  then have "x = 0" using assms by simp
  then show ?thesis using assms by (simp add: atan2_def)
qed

lemma atan2_unit_circle:
  assumes "0 \<le> y" "0 \<le> x" "x\<^sup>2 + y\<^sup>2 = 1"
  shows "sin (atan2 y x) = y \<and> cos (atan2 y x) = x"
proof (cases "0 < x")
  case True
  have "1 + (y / x)\<^sup>2 = (x\<^sup>2 + y\<^sup>2) / x\<^sup>2"
    using True by (simp add: power_divide field_simps)
  then have "sqrt (1 + (y / x)\<^sup>2) = 1 / x"
    using True assms by (simp add: real_sqrt_divide)
  then show ?thesis using True
    by (simp add: atan2_def sin_arctan cos_arctan)
next
  case False
  then have x: "x = 0" using assms by simp
  then have "y\<^sup>2 = 1" using assms by simp
  then have "y = 1" using assms(1)
    by (metis one_power2 power2_eq_iff_nonneg zero_le_one)
  then show ?thesis using x by (simp add: atan2_def)
qed

lemma hav_angle_sin:
  assumes "0 \<le> a" "a \<le> 1"
  shows "sin (hav_angle a / 2) = sqrt a"
  using atan2_unit_circle [of "sqrt a" "sqrt (1 - a)"] assms
  by (simp add: hav_angle_def)

lemma hav_angle_range:
  assumes "0 \<le> a" "a \<le> 1"
  shows "0 \<le> hav_angle a \<and> hav_angle a \<le> pi"
  using atan2_range [of "sqrt a" "sqrt (1 - a)"] assms
  by (simp add: hav_angle_def)

lemma hav_angle_mono:
  assumes "0 \<le> a" "a \<le> b" "b \<le> 1"
  shows "hav_angle a \<le> hav_angle b"
proof -
  have ra: "0 \<le> hav_angle a / 2 \<and> hav_angle a / 2 \<le> pi / 2"
    using hav_angle_range [of a] assms by simp
  have rb: "0 \<le> hav_angle b / 2 \<and> hav_angle b / 2 \<le> pi / 2"
    using hav_angle_range [of b] assms by simp
  have "sin (hav_angle a / 2) \<le> sin (hav_angle b / 2)"
    using assms by (simp add: hav_angle_sin)
  then have "hav_angle a / 2 \<le> hav_angle b / 2"
    using ra rb by (subst (asm) sin_mono_le_eq) auto
  then show ?thesis by simp
qed

lemma hav_angle_sin_sq:
  assumes "0 \<le> x" "x \<le> pi / 2"
  shows "hav_angle ((sin x)\<^sup>2) = 2 * x"
proof -
  let ?h = "hav_angle ((sin x)\<^sup>2)"
  have s: "0 \<le> sin x" using assms by (simp add: sin_ge_zero)
  have a: "0 \<le> (sin x)\<^sup>2" "(sin x)\<^sup>2 \<le> 1"
    by (simp_all add: abs_square_le_1)
  have e: "sin (?h / 2) = sin x"
    using hav_angle_sin [OF a] s by simp
  have r: "0 \<le> ?h / 2" "?h / 2 \<le> pi / 2"
    using hav_angle_range [OF a] by simp_all
  have "?h / 2 = x"
  proof (rule sin_inj_pi)
    show "- (pi / 2) \<le> ?h / 2" using r(1) pi_ge_zero by linarith
    show "?h / 2 \<le> pi / 2" by (rule r(2))
    show "- (pi / 2) \<le> x" using assms(1) pi_ge_zero by linarith
    show "x \<le> pi / 2" by (rule assms(2))
    show "sin (?h / 2) = sin x" by (rule e)
  qed
  then show ?thesis by simp
qed

lemma hav_angle_0: "hav_angle 0 = 0"
  by (simp add: hav_angle_def atan2_def)

lemma hav_angle_1: "hav_angle 1 = pi"
  by (simp add: hav_angle_def atan2_def)

lemma hav_angle_half: "hav_angle (1 / 2) = pi / 2"
  by (simp add: hav_angle_def atan2_def arctan_one)

subsection \<open>Bounds on \<open>pi\<close>\<close>

lemma sum_upto_7:
  fixes f :: "nat \<Rightarrow> real"
  shows "(\<Sum>m<7. f m) = f 0 + f 1 + f 2 + f 3 + f 4 + f 5 + f 6"
  by (simp add: eval_nat_numeral lessThan_Suc)

lemma sin_coeffs:
  "sin_coeff (Suc 0) = 1" "sin_coeff 2 = 0" "sin_coeff 3 = - 1 / 6" "sin_coeff 4 = 0"
  "sin_coeff 5 = 1 / 120" "sin_coeff 6 = 0"
  by (simp_all add: sin_coeff_def fact_numeral)

lemma sin_poly_bound:
  fixes x :: real
  shows "\<bar>sin x - (x - x ^ 3 / 6 + x ^ 5 / 120)\<bar> \<le> \<bar>x\<bar> ^ 7 / 5040"
proof -
  have s: "(\<Sum>m<7. sin_coeff m * x ^ m) = x - x ^ 3 / 6 + x ^ 5 / 120"
    by (simp add: sum_upto_7 sin_coeffs)
  have f: "inverse (fact 7 :: real) * \<bar>x\<bar> ^ 7 = \<bar>x\<bar> ^ 7 / 5040"
    by (simp add: fact_numeral)
  have "\<bar>sin x - (\<Sum>m<7. sin_coeff m * x ^ m)\<bar> \<le> inverse (fact 7) * \<bar>x\<bar> ^ 7"
    by (rule Maclaurin_sin_bound)
  then show ?thesis by (simp only: s f)
qed

lemma pi_lower: "3.14148 < pi"
proof -
  let ?x = "0.52358 :: real"
  have "?x - ?x ^ 3 / 6 + ?x ^ 5 / 120 + \<bar>?x\<bar> ^ 7 / 5040 < 1 / 2"
    by (simp add: power_divide)
  then have "sin ?x < 1 / 2"
    using sin_poly_bound [of ?x] by linarith
  then have "sin ?x < sin (pi / 6)" by (simp add: sin_30)
  moreover have "- (pi / 2) \<le> ?x" using pi_ge_two by simp
  moreover have "?x \<le> pi / 2" using pi_ge_two by simp
  ultimately have "?x < pi / 6"
    using sin_mono_less_eq [of ?x "pi / 6"] pi_ge_two by simp
  then show ?thesis by simp
qed

lemma pi_upper: "pi < 3.14166"
proof -
  let ?x = "0.52361 :: real"
  have "1 / 2 < ?x - ?x ^ 3 / 6 + ?x ^ 5 / 120 - \<bar>?x\<bar> ^ 7 / 5040"
    by (simp add: power_divide)
  then have "1 / 2 < sin ?x"
    using sin_poly_bound [of ?x] by linarith
  then have "sin (pi / 6) < sin ?x" by (simp add: sin_30)
  moreover have "?x \<le> pi / 2" using pi_ge_two by simp
  ultimately have "pi / 6 < ?x"
    using sin_mono_less_eq [of "pi / 6" ?x] pi_ge_two by simp
  then show ?thesis by simp
qed

section \<open>Properties of the distance\<close>

lemma hav_a_new_Coordinate:
  "hav_a (new_Coordinate la1 lo1) (new_Coordinate la2 lo2) =
     sin (radians (la2 - la1) / 2) * sin (radians (la2 - la1) / 2)
     + radians la1 * cos (radians la2)
       * sin (radians (lo2 - lo1) / 2) * sin (radians (lo2 - lo1) / 2)"
  by (simp add: hav_a_def new_Coordinate_def Let_def)

lemma distance_of_a:
  "0 \<le> hav_a c1 c2 \<Longrightarrow> hav_a c1 c2 \<le> 1 \<Longrightarrow>
   distance c1 c2 = Inr (EARTH_RADIUS * hav_angle (hav_a c1 c2))"
  by (simp add: distance_def py_sqrt_def Let_def hav_angle_def)

lemma distance_a_negative:
  "hav_a c1 c2 < 0 \<Longrightarrow> distance c1 c2 = Inl MathDomainError"
  by (simp add: distance_def py_sqrt_def Let_def)

lemma distance_a_above_one:
  "1 < hav_a c1 c2 \<Longrightarrow> distance c1 c2 = Inl MathDomainError"
  by (simp add: distance_def py_sqrt_def Let_def)

lemma radians_values:
  "radians 0 = 0" "radians 1 = pi / 180"
  "radians 30 = pi / 6" "radians (- 30) = - (pi / 6)"
  "radians 60 = pi / 3" "radians (- 60) = - (pi / 3)"
  "radians 90 = pi / 2" "radians (- 90) = - (pi / 2)"
  "radians 120 = 2 * pi / 3" "radians (- 120) = - (2 * pi / 3)"
  "radians 180 = pi" "radians (- 180) = - pi"
  by (simp_all add: radians_def)

lemma new_Coordinate_simps:
  "latitude (new_Coordinate la lo) = la" "longitude (new_Coordinate la lo) = lo"
  by (simp_all add: new_Coordinate_def)

lemma new_City_simps:
  "latitude (new_City n la lo) = la" "longitude (new_City n la lo) = lo" "name (new_City n la lo) = n"
  by (simp_all add: new_City_def)

lemma hav_a_poles: "hav_a (new_Coordinate 90 lon) (new_Coordinate (- 90) lon) = 1"
  by (simp add: hav_a_new_Coordinate radians_values)

lemma hav_a_antipodal_60: "hav_a (new_Coordinate 60 0) (new_Coordinate (- 60) 180) = 3 / 4 + pi / 6"
  by (simp add: hav_a_new_Coordinate radians_values sin_60 cos_60)

lemma hav_a_equator_half_turn: "hav_a (new_Coordinate 0 0) (new_Coordinate 0 180) = 0"
  by (simp add: hav_a_new_Coordinate radians_values)

lemma hav_a_origin_to_30: "hav_a (new_Coordinate 0 0) (new_Coordinate 30 180) = (sin (pi / 12))\<^sup>2"
  by (simp add: hav_a_new_Coordinate radians_values power2_eq_square)

lemma hav_a_30_to_origin:
  "hav_a (new_Coordinate 30 180) (new_Coordinate 0 0) = (sin (pi / 12))\<^sup>2 + pi / 6"
  by (simp add: hav_a_new_Coordinate radians_values power2_eq_square)

lemma pi_gt_three: "3 < pi"
  using pi_lower by simp

lemma pi_lt_sixteen_fifths: "pi < 16 / 5"
  using pi_upper by simp

lemma sin_sq_pi_12_bound: "0 \<le> (sin (pi / 12))\<^sup>2 \<and> (sin (pi / 12))\<^sup>2 \<le> 1 / 9"
proof -
  have p: "0 \<le> pi / 12" by simp
  have "sin (pi / 12) \<le> pi / 12" using p by (rule sin_x_le_x)
  moreover have "pi / 12 \<le> 1 / 3" using pi_upper by simp
  ultimately have u: "sin (pi / 12) \<le> 1 / 3" by linarith
  have l: "0 \<le> sin (pi / 12)" using pi_upper by (intro sin_ge_zero) simp_all
  have "(sin (pi / 12))\<^sup>2 \<le> (1 / 3)\<^sup>2" using u l by (rule power_mono)
  then show ?thesis by (simp add: power2_eq_square)
qed

lemma hav_a_30_to_origin_range:
  "1 / 2 \<le> hav_a (new_Coordinate 30 180) (new_Coordinate 0 0) \<and> hav_a (new_Coordinate 30 180) (new_Coordinate 0 0) \<le> 1"
proof -
  let ?s = "(sin (pi / 12))\<^sup>2"
  have s: "0 \<le> ?s" "?s \<le> 1 / 9" using sin_sq_pi_12_bound by simp_all
  have l: "1 / 2 \<le> ?s + pi / 6" using s(1) pi_gt_three by linarith
  have u: "?s + pi / 6 \<le> 1" using s(2) pi_lt_sixteen_fifths by linarith
  show ?thesis using l u by (simp only: hav_a_30_to_origin)
qed

lemma distance_poles: "distance (new_Coordinate 90 lon) (new_Coordinate (- 90) lon) = Inr (EARTH_RADIUS * pi)"
  by (simp add: distance_of_a hav_a_poles hav_angle_1)

lemma earth_half_circumference: "\<bar>EARTH_RADIUS * pi - 20015.1\<bar> \<le> 1"
  using pi_lower pi_upper by (simp add: EARTH_RADIUS_def abs_le_iff)

lemma distance_antipodal_60: "distance (new_Coordinate 60 0) (new_Coordinate (- 60) 180) = Inl MathDomainError"
proof -
  have "1 < hav_a (new_Coordinate 60 0) (new_Coordinate (- 60) 180)"
    using pi_ge_two by (simp add: hav_a_antipodal_60)
  then show ?thesis by (rule distance_a_above_one)
qed

lemma distance_equator_half_turn: "distance (new_Coordinate 0 0) (new_Coordinate 0 180) = Inr 0"
  by (simp add: distance_of_a hav_a_equator_half_turn hav_angle_0)

lemma spec_haversine_equator_half_turn:
  "spec_haversine (new_Coordinate 0 0) (new_Coordinate 0 180) = 6371 * pi"
proof -
  have "spec_haversine_a (new_Coordinate 0 0) (new_Coordinate 0 180) = 1"
    by (simp add: spec_haversine_a_def new_Coordinate_simps radians_values)
  then show ?thesis
    using hav_angle_1 by (simp add: spec_haversine_def hav_angle_def)
qed

lemma distance_origin_to_30:
  "distance (new_Coordinate 0 0) (new_Coordinate 30 180) = Inr (EARTH_RADIUS * (pi / 6))"
proof -
  have "hav_angle ((sin (pi / 12))\<^sup>2) = 2 * (pi / 12)"
    by (rule hav_angle_sin_sq) simp_all
  then show ?thesis
    using sin_sq_pi_12_bound by (simp add: distance_of_a hav_a_origin_to_30)
qed

lemma distance_30_to_origin:
  "distance (new_Coordinate 30 180) (new_Coordinate 0 0)
     = Inr (EARTH_RADIUS * hav_angle (hav_a (new_Coordinate 30 180) (new_Coordinate 0 0)))
   \<and> pi / 2 \<le> hav_angle (hav_a (new_Coordinate 30 180) (new_Coordinate 0 0))"
proof -
  let ?a = "hav_a (new_Coordinate 30 180) (new_Coordinate 0 0)"
  have r: "1 / 2 \<le> ?a" "?a \<le> 1" using hav_a_30_to_origin_range by simp_all
  have "0 \<le> ?a" using r(1) by linarith
  then have d: "distance (new_Coordinate 30 180) (new_Coordinate 0 0) = Inr (EARTH_RADIUS * hav_angle ?a)"
    using r(2) by (rule distance_of_a)
  have "hav_angle (1 / 2) \<le> hav_angle ?a"
    using r by (intro hav_angle_mono) simp_all
  then show ?thesis using d by (simp add: hav_angle_half)
qed

lemma distance_south_60_to_half_turn:
  "distance (new_Coordinate (- 60) 0) (new_Coordinate 0 180) = Inl MathDomainError"
proof -
  have "hav_a (new_Coordinate (- 60) 0) (new_Coordinate 0 180) = 1 / 4 - pi / 3"
    by (simp add: hav_a_new_Coordinate radians_values sin_30)
  then have "hav_a (new_Coordinate (- 60) 0) (new_Coordinate 0 180) < 0"
    using pi_gt_three by simp
  then show ?thesis by (rule distance_a_negative)
qed

lemma distance_same_point: "distance c c = Inr 0"
proof -
  have "hav_a c c = 0" by (simp add: hav_a_def radians_def)
  then show ?thesis by (simp add: distance_of_a hav_angle_0)
qed

lemma not_close_when_tripled:
  fixes d1 d2 :: real
  assumes "0 < d1" "3 * d1 \<le> d2"
  shows "\<not> \<bar>d1 - d2\<bar> \<le> (1 / 10 ^ 9) * max \<bar>d1\<bar> \<bar>d2\<bar>"
  using assms by (simp add: max_def abs_if) 


text \<open>
  C4: one degree of longitude on the equator. The source returns 0 there, since
  \<open>radians(c1.latitude)\<close> is 0, and 0 is not within 0.1 km of 111.19 km.
\<close>

theorem distance_equator_one_degree:
  "distance (new_Coordinate 0 0) (new_Coordinate 0 1) = Inr 0
   \<and> \<not> result_within 0.1 111.19 (distance (new_Coordinate 0 0) (new_Coordinate 0 1))"
proof -
  have "hav_a (new_Coordinate 0 0) (new_Coordinate 0 1) = 0"
    by (simp add: hav_a_new_Coordinate radians_def)
  then have "distance (new_Coordinate 0 0) (new_Coordinate 0 1) = Inr 0"
    by (simp add: distance_of_a hav_angle_0)
  then show ?thesis by (simp add: result_within_def)
qed

text \<open>
  C1: \<open>distance\<close> does not compute the haversine formula of the specification. From
  (0, 0) to (0, 180) the formula gives half the circumference, \<open>6371 \<cdot> pi\<close>; the source
  multiplies the cross term by \<open>radians(c1.latitude) = 0\<close> where the formula has
  \<open>cos(radians(lat1)) = 1\<close>, and returns 0.
\<close>

theorem distance_differs_from_spec_haversine:
  "distance (new_Coordinate 0 0) (new_Coordinate 0 180) = Inr 0
   \<and> spec_haversine (new_Coordinate 0 0) (new_Coordinate 0 180) = 6371 * pi
   \<and> distance (new_Coordinate 0 0) (new_Coordinate 0 180)
       \<noteq> Inr (spec_haversine (new_Coordinate 0 0) (new_Coordinate 0 180))"
  by (simp add: distance_equator_half_turn spec_haversine_equator_half_turn)

text \<open>
  C2: \<open>distance\<close> is not symmetric. From (0, 0) to (30, 180) it is \<open>6371 \<cdot> pi / 6\<close>;
  from (30, 180) to (0, 0) the cross term is \<open>radians(30) = pi / 6\<close>, the result is at
  least \<open>6371 \<cdot> pi / 2\<close>, and the two are not within a relative tolerance of 1e-9.
\<close>

theorem distance_not_symmetric:
  "distance (new_Coordinate 0 0) (new_Coordinate 30 180) = Inr (EARTH_RADIUS * (pi / 6))
   \<and> distance (new_Coordinate 30 180) (new_Coordinate 0 0)
       = Inr (EARTH_RADIUS * hav_angle (hav_a (new_Coordinate 30 180) (new_Coordinate 0 0)))
   \<and> \<not> results_close (1 / 10 ^ 9)
         (distance (new_Coordinate 0 0) (new_Coordinate 30 180))
         (distance (new_Coordinate 30 180) (new_Coordinate 0 0))"
proof -
  let ?h = "hav_angle (hav_a (new_Coordinate 30 180) (new_Coordinate 0 0))"
  have d2: "distance (new_Coordinate 30 180) (new_Coordinate 0 0) = Inr (EARTH_RADIUS * ?h)"
    and h: "pi / 2 \<le> ?h"
    using distance_30_to_origin by simp_all
  have p: "0 < EARTH_RADIUS * (pi / 6)"
    by (simp add: EARTH_RADIUS_def)
  have "EARTH_RADIUS * (pi / 2) \<le> EARTH_RADIUS * ?h"
    using h by (simp add: EARTH_RADIUS_def)
  then have t: "3 * (EARTH_RADIUS * (pi / 6)) \<le> EARTH_RADIUS * ?h"
    by simp
  have "\<not> \<bar>EARTH_RADIUS * (pi / 6) - EARTH_RADIUS * ?h\<bar>
          \<le> (1 / 10 ^ 9) * max \<bar>EARTH_RADIUS * (pi / 6)\<bar> \<bar>EARTH_RADIUS * ?h\<bar>"
    using p t by (rule not_close_when_tripled)
  then show ?thesis
    by (simp only: results_close_def distance_origin_to_30 d2 sum.case simp_thms)
qed

text \<open>
  C3: \<open>distance\<close> is not total on the degree range. For the antipodal points
  (60, 0) and (-60, 180) the value \<open>a\<close> is \<open>3/4 + pi/6 > 1\<close>, and
  \<open>sqrt(1 - a)\<close> raises \<open>ValueError\<close>. From (-60, 0) to (0, 180) the value \<open>a\<close> is
  \<open>1/4 - pi/3 < 0\<close>, and \<open>sqrt(a)\<close> raises.
\<close>

theorem distance_raises_on_antipodal_points:
  "distance (new_Coordinate 60 0) (new_Coordinate (- 60) 180) = Inl MathDomainError
   \<and> distance (new_Coordinate (- 60) 0) (new_Coordinate 0 180) = Inl MathDomainError"
  by (simp add: distance_antipodal_60 distance_south_60_to_half_turn)

text \<open>
  C5: from the North Pole (90, lon) to the South Pole (-90, lon), \<open>distance\<close> returns
  \<open>6371 \<cdot> pi\<close>, which is within 1 km of 20015.1 km.
\<close>

theorem distance_pole_to_pole:
  "distance (new_Coordinate 90 lon) (new_Coordinate (- 90) lon) = Inr (EARTH_RADIUS * pi)
   \<and> result_within 1 20015.1 (distance (new_Coordinate 90 lon) (new_Coordinate (- 90) lon))"
  using earth_half_circumference by (simp add: distance_poles result_within_def)

section \<open>Properties of \<open>min\<close> with a key function\<close>

lemma min_loop_Some_decomp:
  assumes "min_loop key xs (Some (m, mv)) = Inr r"
    and "key m = Inr mv"
    and "\<forall>x\<in>set pre. \<exists>w. key x = Inr w \<and> mv < w"
    and "\<forall>x\<in>set mid. \<exists>w. key x = Inr w \<and> mv \<le> w"
  shows "\<exists>pre' post v. pre @ m # mid @ xs = pre' @ r # post \<and> key r = Inr v
           \<and> (\<forall>x\<in>set pre'. \<exists>w. key x = Inr w \<and> v < w)
           \<and> (\<forall>x\<in>set post. \<exists>w. key x = Inr w \<and> v \<le> w)"
  using assms
proof (induction xs arbitrary: m mv pre mid)
  case Nil
  then have "r = m" by simp
  with Nil show ?case by auto
next
  case (Cons x xs)
  from Cons.prems(1) obtain v where kx: "key x = Inr v"
    by (cases "key x") auto
  show ?case
  proof (cases "v < mv")
    case True
    with Cons.prems(1) kx have run: "min_loop key xs (Some (x, v)) = Inr r" by simp
    have pre: "\<forall>y\<in>set (pre @ m # mid). \<exists>w. key y = Inr w \<and> v < w"
      using Cons.prems(2,3,4) True by fastforce
    have mid: "\<forall>y\<in>set []. \<exists>w. key y = Inr w \<and> v \<le> w" by simp
    from Cons.IH [OF run kx pre mid] show ?thesis by simp
  next
    case False
    with Cons.prems(1) kx have run: "min_loop key xs (Some (m, mv)) = Inr r" by simp
    have mid: "\<forall>y\<in>set (mid @ [x]). \<exists>w. key y = Inr w \<and> mv \<le> w"
      using Cons.prems(4) kx False by auto
    from Cons.IH [OF run Cons.prems(2) Cons.prems(3) mid] show ?thesis by simp
  qed
qed

lemma py_min_first_minimum:
  assumes "py_min key xs = Inr r"
  shows "\<exists>pre post v. xs = pre @ r # post \<and> key r = Inr v
           \<and> (\<forall>x\<in>set pre. \<exists>w. key x = Inr w \<and> v < w)
           \<and> (\<forall>x\<in>set post. \<exists>w. key x = Inr w \<and> v \<le> w)"
proof (cases xs)
  case Nil
  with assms show ?thesis by (simp add: py_min_def)
next
  case (Cons x rest)
  from assms Cons obtain v where kx: "key x = Inr v"
    by (cases "key x") (auto simp: py_min_def)
  with assms Cons have run: "min_loop key rest (Some (x, v)) = Inr r"
    by (simp add: py_min_def)
  have "\<exists>pre' post v'. [] @ x # [] @ rest = pre' @ r # post \<and> key r = Inr v'
           \<and> (\<forall>y\<in>set pre'. \<exists>w. key y = Inr w \<and> v' < w)
           \<and> (\<forall>y\<in>set post. \<exists>w. key y = Inr w \<and> v' \<le> w)"
    by (rule min_loop_Some_decomp [OF run kx]) simp_all
  then show ?thesis using Cons by simp
qed

lemma min_loop_Some_total:
  assumes "\<forall>x\<in>set xs. \<exists>w. key x = Inr w"
  shows "\<exists>r. min_loop key xs (Some (m, mv)) = Inr r"
  using assms
proof (induction xs arbitrary: m mv)
  case Nil
  show ?case by simp
next
  case (Cons x xs)
  then obtain v where kx: "key x = Inr v" by auto
  from Cons have rest: "\<forall>y\<in>set xs. \<exists>w. key y = Inr w" by simp
  show ?case
    using Cons.IH [OF rest, of x v] Cons.IH [OF rest, of m mv] kx by simp
qed

lemma py_min_total:
  assumes "xs \<noteq> []" and "\<forall>x\<in>set xs. \<exists>w. key x = Inr w"
  shows "\<exists>r. py_min key xs = Inr r"
proof (cases xs)
  case Nil
  with assms(1) show ?thesis by simp
next
  case (Cons x rest)
  with assms(2) obtain v where kx: "key x = Inr v" by auto
  from Cons assms(2) have "\<forall>y\<in>set rest. \<exists>w. key y = Inr w" by simp
  from min_loop_Some_total [OF this, of x v] show ?thesis
    using Cons kx by (simp add: py_min_def)
qed

lemma py_min_key_raises:
  assumes "\<forall>x\<in>set pre. \<exists>w. key x = Inr w" and "key x = Inl e"
  shows "py_min key (pre @ x # post) = Inl e"
proof -
  have loop: "min_loop key (ys @ x # post) best = Inl e"
    if "\<forall>y\<in>set ys. \<exists>w. key y = Inr w" for ys best
    using that
  proof (induction ys arbitrary: best)
    case Nil
    show ?case using assms(2) by simp
  next
    case (Cons y ys)
    then obtain w where "key y = Inr w" by auto
    with Cons show ?case by (cases best) auto
  qed
  show ?thesis unfolding py_min_def by (rule loop [OF assms(1)])
qed

lemma py_min_empty: "py_min key [] = Inl EmptySequenceError"
  by (simp add: py_min_def)

section \<open>Properties of the closest city\<close>

lemma distance_new_City_left:
  "distance (new_City n la lo) c2 = distance (new_Coordinate la lo) c2"
  by (simp add: distance_def hav_a_def new_City_simps new_Coordinate_simps)

lemma distance_new_City_right:
  "distance c1 (new_City n la lo) = distance c1 (new_Coordinate la lo)"
  by (simp add: distance_def hav_a_def new_City_simps new_Coordinate_simps)

lemma hav_angle_quarter: "hav_angle (1 / 4) = pi / 3"
proof -
  have "hav_angle ((sin (pi / 6))\<^sup>2) = 2 * (pi / 6)"
    by (rule hav_angle_sin_sq) simp_all
  then show ?thesis by (simp add: sin_30 power2_eq_square)
qed

lemma distance_60_to_origin:
  "distance (new_Coordinate 60 0) (new_Coordinate 0 0) = Inr (EARTH_RADIUS * (pi / 3))"
proof -
  have a: "hav_a (new_Coordinate 60 0) (new_Coordinate 0 0) = 1 / 4"
    by (simp add: hav_a_new_Coordinate radians_values sin_30)
  show ?thesis by (simp add: distance_of_a a hav_angle_quarter)
qed

lemma distance_origin_to_60:
  "distance (new_Coordinate 0 0) (new_Coordinate 60 0) = Inr (EARTH_RADIUS * (pi / 3))"
proof -
  have a: "hav_a (new_Coordinate 0 0) (new_Coordinate 60 0) = 1 / 4"
    by (simp add: hav_a_new_Coordinate radians_values sin_30)
  show ?thesis by (simp add: distance_of_a a hav_angle_quarter)
qed

lemma distance_south_60_to_origin:
  "distance (new_Coordinate (- 60) 0) (new_Coordinate 0 0) = Inr (EARTH_RADIUS * (pi / 3))"
proof -
  have a: "hav_a (new_Coordinate (- 60) 0) (new_Coordinate 0 0) = 1 / 4"
    by (simp add: hav_a_new_Coordinate radians_values sin_30)
  show ?thesis by (simp add: distance_of_a a hav_angle_quarter)
qed

lemma closest_city_raises_example:
  "closest_city (new_Coordinate 0 180) [new_City ''X'' (- 60) 0] = Inl MathDomainError"
  by (simp add: closest_city_def py_min_def distance_new_City_left
      distance_south_60_to_half_turn)

lemma closest_city_single_example:
  "closest_city (new_Coordinate 0 0) [new_City ''X'' (- 60) 0] = Inr (new_City ''X'' (- 60) 0)"
  by (simp add: closest_city_def py_min_def distance_new_City_left
      distance_south_60_to_origin)

lemma closest_city_Nil:
  "closest_city q [] = Inl EmptySequenceError"
  by (simp add: closest_city_def py_min_def)

lemma closest_cities_loop_rows:
  assumes "\<forall>q\<in>set qs. \<exists>c. closest_city q cs = Inr c"
  shows "closest_cities_loop qs cs written =
           (written @ map (\<lambda>q. [Num (latitude q), Num (longitude q),
                               Str (name (projr (closest_city q cs)))]) qs, None)"
  using assms
proof (induction qs arbitrary: written)
  case Nil
  show ?case by simp
next
  case (Cons q qs)
  then obtain c where c: "closest_city q cs = Inr c" by auto
  from Cons.prems have "\<forall>q\<in>set qs. \<exists>c. closest_city q cs = Inr c" by simp
  from Cons.IH [OF this] c show ?case by simp
qed


text \<open>
  C6: \<open>closest_city\<close> does not return a candidate for every query and every non-empty
  list of cities. For the query (0, 180) and the cities Y at (0, 0) and X at (-60, 0),
  the key of Y is computed (it is 0), the key of X raises \<open>ValueError\<close> in
  \<open>math.sqrt\<close>, and the exception leaves \<open>min\<close>.
\<close>

theorem closest_city_raises_on_domain_error:
  "closest_city (new_Coordinate 0 180) [new_City ''Y'' 0 0, new_City ''X'' (- 60) 0]
     = Inl MathDomainError"
  by (simp add: closest_city_def py_min_def distance_new_City_left
      distance_equator_half_turn distance_south_60_to_half_turn)

text \<open>
  C7: with no cities, \<open>closest_city\<close> fails for every query with the \<open>ValueError\<close>
  of \<open>min\<close> on an empty sequence, and \<open>write_closest_cities\<close> passes the exception on
  at its first coordinate, after the header row.
\<close>

theorem closest_city_empty_fails:
  "closest_city q [] = Inl EmptySequenceError
   \<and> write_closest_cities (q # qs) [] = ([closest_cities_header], Some EmptySequenceError)"
  by (simp add: write_closest_cities_def closest_city_Nil)

text \<open>
  C8: \<open>write_closest_cities\<close> does not write one row for each coordinate on every
  input with a non-empty list of cities. With the city X at (-60, 0) and the
  coordinates (0, 0), (0, 180), (0, 0) it writes the header and the row of the first
  coordinate, and the second coordinate ends it with \<open>ValueError\<close>.
\<close>

theorem write_closest_cities_stops_at_domain_error:
  "write_closest_cities
     [new_Coordinate 0 0, new_Coordinate 0 180, new_Coordinate 0 0]
     [new_City ''X'' (- 60) 0]
   = ([closest_cities_header, [Num 0, Num 0, Str ''X'']], Some MathDomainError)"
  by (simp add: write_closest_cities_def closest_city_single_example
      closest_city_raises_example new_Coordinate_simps new_City_simps)


text \<open>
  C9: \<open>closest_city\<close> minimises \<open>distance city coordinate\<close>, the city being the
  first argument. When the list of cities is not empty and that distance is defined for
  every city, it returns a city, and the city it returns is the first one of the list
  whose distance is minimal: strictly smaller than that of every earlier city, and at
  most that of every later one. Whenever it returns a city, the city has this property.
  The witness is a query where the order of the arguments decides: for (0, 0) and the
  cities B at (30, 180) and A at (60, 0), \<open>closest_city\<close> returns A, the second city,
  and the scan with the query as the first argument returns B.
\<close>

theorem closest_city_minimises_candidate_first:
  "(closest_city q cities = Inr c \<longrightarrow>
      (\<exists>pre post d. cities = pre @ c # post \<and> distance c q = Inr d
         \<and> (\<forall>x\<in>set pre. \<exists>w. distance x q = Inr w \<and> d < w)
         \<and> (\<forall>x\<in>set post. \<exists>w. distance x q = Inr w \<and> d \<le> w)))
   \<and> (cities \<noteq> [] \<and> (\<forall>x\<in>set cities. \<exists>w. distance x q = Inr w) \<longrightarrow>
      (\<exists>c' pre post d. closest_city q cities = Inr c'
         \<and> cities = pre @ c' # post \<and> distance c' q = Inr d
         \<and> (\<forall>x\<in>set pre. \<exists>w. distance x q = Inr w \<and> d < w)
         \<and> (\<forall>x\<in>set post. \<exists>w. distance x q = Inr w \<and> d \<le> w)))"
proof (intro conjI impI)
  assume "closest_city q cities = Inr c"
  then show "\<exists>pre post d. cities = pre @ c # post \<and> distance c q = Inr d
         \<and> (\<forall>x\<in>set pre. \<exists>w. distance x q = Inr w \<and> d < w)
         \<and> (\<forall>x\<in>set post. \<exists>w. distance x q = Inr w \<and> d \<le> w)"
    using py_min_first_minimum [of "\<lambda>city. distance city q" cities c]
    by (simp add: closest_city_def)
next
  assume h: "cities \<noteq> [] \<and> (\<forall>x\<in>set cities. \<exists>w. distance x q = Inr w)"
  then obtain r where r: "py_min (\<lambda>city. distance city q) cities = Inr r"
    using py_min_total [of cities "\<lambda>city. distance city q"] by blast
  from py_min_first_minimum [OF r] r
  show "\<exists>c' pre post d. closest_city q cities = Inr c'
         \<and> cities = pre @ c' # post \<and> distance c' q = Inr d
         \<and> (\<forall>x\<in>set pre. \<exists>w. distance x q = Inr w \<and> d < w)
         \<and> (\<forall>x\<in>set post. \<exists>w. distance x q = Inr w \<and> d \<le> w)"
    unfolding closest_city_def by blast
qed

lemma distances_to_origin_defined:
  "\<forall>x\<in>set [new_City ''B'' 30 180, new_City ''A'' 60 0].
     \<exists>w. distance x (new_Coordinate 0 0) = Inr w"
proof -
  have "\<exists>w. distance (new_Coordinate 30 180) (new_Coordinate 0 0) = Inr w"
    using distance_30_to_origin by blast
  moreover have "\<exists>w. distance (new_Coordinate 60 0) (new_Coordinate 0 0) = Inr w"
    using distance_60_to_origin by blast
  ultimately show ?thesis by (simp add: distance_new_City_left)
qed

lemma closest_city_candidate_first_example:
  "closest_city (new_Coordinate 0 0) [new_City ''B'' 30 180, new_City ''A'' 60 0]
     = Inr (new_City ''A'' 60 0)"
proof -
  let ?h = "hav_angle (hav_a (new_Coordinate 30 180) (new_Coordinate 0 0))"
  have d2: "distance (new_Coordinate 30 180) (new_Coordinate 0 0) = Inr (EARTH_RADIUS * ?h)"
    and h: "pi / 2 \<le> ?h"
    using distance_30_to_origin by simp_all
  have "pi / 3 < ?h" using h pi_gt_three by linarith
  then have "EARTH_RADIUS * (pi / 3) < EARTH_RADIUS * ?h"
    by (simp add: EARTH_RADIUS_def)
  then show ?thesis
    by (simp add: closest_city_def py_min_def distance_new_City_left
        distance_60_to_origin d2)
qed

lemma query_first_example:
  "spec_nearest_query_first (new_Coordinate 0 0)
     [new_City ''B'' 30 180, new_City ''A'' 60 0] = Inr (new_City ''B'' 30 180)"
proof -
  have "\<not> EARTH_RADIUS * (pi / 3) < EARTH_RADIUS * (pi / 6)"
    by (simp add: EARTH_RADIUS_def)
  then show ?thesis
    by (simp add: spec_nearest_query_first_def py_min_def distance_new_City_right
        distance_origin_to_60 distance_origin_to_30)
qed

theorem closest_city_minimises_candidate_first_witness:
  "closest_city (new_Coordinate 0 0) [new_City ''B'' 30 180, new_City ''A'' 60 0]
     = Inr (new_City ''A'' 60 0)
   \<and> spec_nearest_query_first (new_Coordinate 0 0)
       [new_City ''B'' 30 180, new_City ''A'' 60 0] = Inr (new_City ''B'' 30 180)
   \<and> (\<exists>pre post d.
         [new_City ''B'' 30 180, new_City ''A'' 60 0] = pre @ new_City ''A'' 60 0 # post
         \<and> distance (new_City ''A'' 60 0) (new_Coordinate 0 0) = Inr d
         \<and> (\<forall>x\<in>set pre. \<exists>w. distance x (new_Coordinate 0 0) = Inr w \<and> d < w)
         \<and> (\<forall>x\<in>set post. \<exists>w. distance x (new_Coordinate 0 0) = Inr w \<and> d \<le> w))
   \<and> (\<exists>c' pre post d.
         closest_city (new_Coordinate 0 0) [new_City ''B'' 30 180, new_City ''A'' 60 0]
           = Inr c'
         \<and> [new_City ''B'' 30 180, new_City ''A'' 60 0] = pre @ c' # post
         \<and> distance c' (new_Coordinate 0 0) = Inr d
         \<and> (\<forall>x\<in>set pre. \<exists>w. distance x (new_Coordinate 0 0) = Inr w \<and> d < w)
         \<and> (\<forall>x\<in>set post. \<exists>w. distance x (new_Coordinate 0 0) = Inr w \<and> d \<le> w))"
proof -
  let ?q = "new_Coordinate 0 0"
  let ?cs = "[new_City ''B'' 30 180, new_City ''A'' 60 0]"
  note inst = closest_city_minimises_candidate_first [of ?q ?cs "new_City ''A'' 60 0"]
  have ne: "?cs \<noteq> []" by simp
  from inst closest_city_candidate_first_example
  have first: "\<exists>pre post d. ?cs = pre @ new_City ''A'' 60 0 # post
         \<and> distance (new_City ''A'' 60 0) ?q = Inr d
         \<and> (\<forall>x\<in>set pre. \<exists>w. distance x ?q = Inr w \<and> d < w)
         \<and> (\<forall>x\<in>set post. \<exists>w. distance x ?q = Inr w \<and> d \<le> w)"
    by blast
  from inst ne distances_to_origin_defined
  have second: "\<exists>c' pre post d. closest_city ?q ?cs = Inr c'
         \<and> ?cs = pre @ c' # post \<and> distance c' ?q = Inr d
         \<and> (\<forall>x\<in>set pre. \<exists>w. distance x ?q = Inr w \<and> d < w)
         \<and> (\<forall>x\<in>set post. \<exists>w. distance x ?q = Inr w \<and> d \<le> w)"
    by blast
  show ?thesis
    by (intro conjI closest_city_candidate_first_example query_first_example first second)
qed

section \<open>Properties of \<open>parse_coordinates\<close>\<close>

lemma parse_loop_odd_raises:
  "odd (length rows) \<Longrightarrow> \<exists>e. parse_loop parse rows acc = Inl e"
proof (induction parse rows acc rule: parse_loop.induct)
  case (1 parse coordinates)
  then show ?case by simp
next
  case (2 parse lat_row coordinates)
  show ?case by simp
next
  case (3 parse lat_row lon_row rest coordinates)
  then show ?case by (auto split: sum.splits)
qed

lemma parse_loop_odd_invalid:
  "odd (length rows) \<Longrightarrow> \<forall>r\<in>set (butlast rows). \<exists>x. row_float parse r = Inr x \<Longrightarrow>
   parse_loop parse rows acc = Inl InvalidFileError"
proof (induction parse rows acc rule: parse_loop.induct)
  case (1 parse coordinates)
  then show ?case by simp
next
  case (2 parse lat_row coordinates)
  show ?case by simp
next
  case (3 parse lat_row lon_row rest coordinates)
  from "3.prems"(1) have ne: "rest \<noteq> []" by auto
  from "3.prems"(2) ne obtain la lo where
    la: "row_float parse lat_row = Inr la" and lo: "row_float parse lon_row = Inr lo"
    by auto
  from "3.prems" ne have
    "odd (length rest)" "\<forall>r\<in>set (butlast rest). \<exists>x. row_float parse r = Inr x"
    by auto
  with "3.IH" [OF la lo] la lo show ?case by simp
qed

lemma parse_loop_even_pairs:
  "even (length rows) \<Longrightarrow> \<forall>r\<in>set rows. \<exists>x. row_float parse r = Inr x \<Longrightarrow>
   parse_loop parse rows acc
     = Inr (acc @ pair_up (map (\<lambda>r. projr (row_float parse r)) rows))"
proof (induction parse rows acc rule: parse_loop.induct)
  case (1 parse coordinates)
  then show ?case by simp
next
  case (2 parse lat_row coordinates)
  then show ?case by simp
next
  case (3 parse lat_row lon_row rest coordinates)
  from "3.prems"(2) obtain la lo where
    la: "row_float parse lat_row = Inr la" and lo: "row_float parse lon_row = Inr lo"
    by auto
  from "3.prems" have
    "even (length rest)" "\<forall>r\<in>set rest. \<exists>x. row_float parse r = Inr x"
    by auto
  with "3.IH" [OF la lo] la lo show ?case by simp
qed

lemma row_float_examples:
  "row_float float_example (row_of_value (Some ''50'')) = Inr 50"
  "row_float float_example (row_of_value (Some ''14'')) = Inr 14"
  "row_float float_example (row_of_value None) = Inl TypeError"
  "row_float float_example Map.empty = Inl KeyError"
  "row_float float_example (row_of_value (Some ''x'')) = Inl FloatParseError"
  by (simp_all add: row_float_def row_value_def py_float_def float_example_def row_of_value_def)

lemma parse_loop_first_error:
  "parse_loop parse rows acc =
     (if odd (length rows)
      then Inl (case first_error parse (butlast rows) of
                  None \<Rightarrow> InvalidFileError | Some e \<Rightarrow> e)
      else (case first_error parse rows of
              None \<Rightarrow> Inr (acc @ pair_up (map (\<lambda>r. projr (row_float parse r)) rows))
            | Some e \<Rightarrow> Inl e))"
proof (induction parse rows acc rule: parse_loop.induct)
  case (1 parse coordinates)
  show ?case by simp
next
  case (2 parse lat_row coordinates)
  show ?case by simp
next
  case (3 parse lat_row lon_row rest coordinates)
  show ?case
  proof (cases "row_float parse lat_row")
    case (Inl e)
    then show ?thesis by auto
  next
    case la: (Inr la)
    show ?thesis
    proof (cases "row_float parse lon_row")
      case (Inl e)
      with la show ?thesis by auto
    next
      case lo: (Inr lo)
      have "odd (length rest) \<Longrightarrow> rest \<noteq> []" by auto
      with "3.IH" [OF la lo] la lo show ?thesis by (auto split: option.splits)
    qed
  qed
qed

lemma first_error_None:
  "\<forall>r\<in>set rows. \<exists>x. row_float parse r = Inr x \<Longrightarrow> first_error parse rows = None"
  by (induction rows) auto

lemma first_error_ValueError:
  "\<forall>r\<in>set rows. \<exists>s. r ''value'' = Some (Some s) \<Longrightarrow>
   first_error parse rows = Some e \<Longrightarrow> is_ValueError e"
proof (induction rows)
  case Nil
  then show ?case by simp
next
  case (Cons r rows)
  then obtain s where s: "r ''value'' = Some (Some s)" by auto
  show ?case
  proof (cases "parse s")
    case None
    with s Cons.prems(2) have "e = FloatParseError"
      by (simp add: row_float_def row_value_def py_float_def)
    then show ?thesis by simp
  next
    case (Some x)
    with s Cons.prems(2) have "first_error parse rows = Some e"
      by (simp add: row_float_def row_value_def py_float_def)
    with Cons show ?thesis by simp
  qed
qed

text \<open>
  C10: \<open>parse_coordinates\<close> builds each coordinate from two consecutive rows, and
  never returns a list for an odd number of rows. For an odd number of rows it raises
  the exception of the first row before the last whose \<open>value\<close> field does not
  convert to a float, and \<open>ValueError('Invalid coordinates file')\<close> when all of them
  convert; so the exception is a \<open>ValueError\<close> whenever every row before the last has a
  string in its \<open>value\<close> field. For an even number of rows it raises the exception
  of the first row that does not convert, and when all convert it returns the
  coordinates of the pairs: the first value is the latitude, the next the longitude.
\<close>

theorem parse_coordinates_pairs_rows:
  "(odd (length rows) \<longrightarrow>
      parse_coordinates parse rows
        = Inl (case first_error parse (butlast rows) of
                 None \<Rightarrow> InvalidFileError | Some e \<Rightarrow> e))
   \<and> (odd (length rows) \<and> (\<forall>r\<in>set (butlast rows). \<exists>s. r ''value'' = Some (Some s))
        \<longrightarrow> (\<exists>e. parse_coordinates parse rows = Inl e \<and> is_ValueError e))
   \<and> (odd (length rows) \<and> (\<forall>r\<in>set (butlast rows). \<exists>x. row_float parse r = Inr x)
        \<longrightarrow> parse_coordinates parse rows = Inl InvalidFileError)
   \<and> (even (length rows) \<longrightarrow>
        parse_coordinates parse rows
          = (case first_error parse rows of
               None \<Rightarrow> Inr (pair_up (map (\<lambda>r. projr (row_float parse r)) rows))
             | Some e \<Rightarrow> Inl e))
   \<and> (even (length rows) \<and> (\<forall>r\<in>set rows. \<exists>x. row_float parse r = Inr x)
        \<longrightarrow> parse_coordinates parse rows
              = Inr (pair_up (map (\<lambda>r. projr (row_float parse r)) rows)))"
proof (intro conjI impI)
  assume "odd (length rows)"
  then show "parse_coordinates parse rows
        = Inl (case first_error parse (butlast rows) of
                 None \<Rightarrow> InvalidFileError | Some e \<Rightarrow> e)"
    by (simp add: parse_coordinates_def parse_loop_first_error)
next
  assume h: "odd (length rows) \<and> (\<forall>r\<in>set (butlast rows). \<exists>s. r ''value'' = Some (Some s))"
  then have p: "parse_coordinates parse rows
        = Inl (case first_error parse (butlast rows) of
                 None \<Rightarrow> InvalidFileError | Some e \<Rightarrow> e)"
    by (simp add: parse_coordinates_def parse_loop_first_error)
  show "\<exists>e. parse_coordinates parse rows = Inl e \<and> is_ValueError e"
  proof (cases "first_error parse (butlast rows)")
    case None
    with p show ?thesis by simp
  next
    case (Some e)
    with h have "is_ValueError e" by (blast intro: first_error_ValueError)
    with p Some show ?thesis by simp
  qed
next
  assume "odd (length rows) \<and> (\<forall>r\<in>set (butlast rows). \<exists>x. row_float parse r = Inr x)"
  then show "parse_coordinates parse rows = Inl InvalidFileError"
    by (simp add: parse_coordinates_def parse_loop_odd_invalid)
next
  assume "even (length rows)"
  then show "parse_coordinates parse rows
          = (case first_error parse rows of
               None \<Rightarrow> Inr (pair_up (map (\<lambda>r. projr (row_float parse r)) rows))
             | Some e \<Rightarrow> Inl e)"
    by (simp add: parse_coordinates_def parse_loop_first_error split: option.splits)
next
  assume "even (length rows) \<and> (\<forall>r\<in>set rows. \<exists>x. row_float parse r = Inr x)"
  then show "parse_coordinates parse rows
              = Inr (pair_up (map (\<lambda>r. projr (row_float parse r)) rows))"
    by (simp add: parse_coordinates_def parse_loop_even_pairs)
qed

theorem parse_coordinates_pairs_rows_witness:
  "parse_coordinates float_example
     [row_of_value (Some ''50''), row_of_value (Some ''14''), row_of_value (Some ''x'')]
     = Inl InvalidFileError
   \<and> parse_coordinates float_example
       [row_of_value (Some ''x''), row_of_value (Some ''14''), row_of_value (Some ''50'')]
     = Inl FloatParseError
   \<and> (\<exists>e. parse_coordinates float_example
            [row_of_value (Some ''x''), row_of_value (Some ''14''), row_of_value (Some ''50'')]
            = Inl e \<and> is_ValueError e)
   \<and> parse_coordinates float_example
       [row_of_value (Some ''x''), row_of_value None, row_of_value (Some ''14'')]
     = Inl FloatParseError
   \<and> parse_coordinates float_example
       [row_of_value (Some ''50''), row_of_value (Some ''14''), row_of_value None]
     = Inl InvalidFileError
   \<and> parse_coordinates float_example
       [row_of_value (Some ''50''), row_of_value (Some ''14'')]
     = Inr [new_Coordinate 50 14]
   \<and> parse_coordinates float_example
       [row_of_value (Some ''50''), row_of_value None]
     = Inl TypeError"
proof -
  let ?ok3 =
    "[row_of_value (Some ''50''), row_of_value (Some ''14''), row_of_value (Some ''x'')]"
  let ?bad3 =
    "[row_of_value (Some ''x''), row_of_value (Some ''14''), row_of_value (Some ''50'')]"
  let ?mixed3 =
    "[row_of_value (Some ''x''), row_of_value None, row_of_value (Some ''14'')]"
  let ?short3 =
    "[row_of_value (Some ''50''), row_of_value (Some ''14''), row_of_value None]"
  let ?two = "[row_of_value (Some ''50''), row_of_value (Some ''14'')]"
  let ?short2 = "[row_of_value (Some ''50''), row_of_value None]"
  have ok3: "odd (length ?ok3)
      \<and> (\<forall>r\<in>set (butlast ?ok3). \<exists>x. row_float float_example r = Inr x)"
    by (simp add: row_float_examples)
  have bad3: "odd (length ?bad3)
      \<and> (\<forall>r\<in>set (butlast ?bad3). \<exists>s. r ''value'' = Some (Some s))"
    by (simp add: row_of_value_def)
  have two: "even (length ?two) \<and> (\<forall>r\<in>set ?two. \<exists>x. row_float float_example r = Inr x)"
    by (simp add: row_float_examples)
  have 1: "parse_coordinates float_example ?ok3 = Inl InvalidFileError"
    using parse_coordinates_pairs_rows [of ?ok3 float_example] ok3 by blast
  have 2: "parse_coordinates float_example ?bad3 = Inl FloatParseError"
    using parse_coordinates_pairs_rows [of ?bad3 float_example]
    by (simp add: row_float_examples)
  have 3: "\<exists>e. parse_coordinates float_example ?bad3 = Inl e \<and> is_ValueError e"
    using parse_coordinates_pairs_rows [of ?bad3 float_example] bad3 by blast
  have 4: "parse_coordinates float_example ?mixed3 = Inl FloatParseError"
    using parse_coordinates_pairs_rows [of ?mixed3 float_example]
    by (simp add: row_float_examples)
  have 5: "parse_coordinates float_example ?short3 = Inl InvalidFileError"
    using parse_coordinates_pairs_rows [of ?short3 float_example]
    by (simp add: row_float_examples)
  have "parse_coordinates float_example ?two
      = Inr (pair_up (map (\<lambda>r. projr (row_float float_example r)) ?two))"
    using parse_coordinates_pairs_rows [of ?two float_example] two by blast
  then have 6: "parse_coordinates float_example ?two = Inr [new_Coordinate 50 14]"
    by (simp add: row_float_examples)
  have 7: "parse_coordinates float_example ?short2 = Inl TypeError"
    using parse_coordinates_pairs_rows [of ?short2 float_example]
    by (simp add: row_float_examples)
  show ?thesis by (intro conjI 1 2 3 4 5 6 7)
qed

text \<open>
  The exception of an odd input is not always a \<open>ValueError\<close>: a second row whose
  field is missing raises \<open>TypeError\<close> in \<open>float\<close>, and a first row without the
  column \<open>value\<close> raises \<open>KeyError\<close>, before the missing longitude row is noticed.
\<close>

theorem parse_coordinates_odd_rows_not_ValueError:
  "odd (length [row_of_value (Some ''50''), row_of_value None, row_of_value (Some ''14'')])
   \<and> parse_coordinates float_example
       [row_of_value (Some ''50''), row_of_value None, row_of_value (Some ''14'')]
     = Inl TypeError
   \<and> \<not> is_ValueError TypeError
   \<and> odd (length [Map.empty, row_of_value (Some ''50''), row_of_value (Some ''14'')])
   \<and> parse_coordinates float_example
       [Map.empty, row_of_value (Some ''50''), row_of_value (Some ''14'')]
     = Inl KeyError
   \<and> \<not> is_ValueError KeyError"
  by (simp add: parse_coordinates_def row_float_examples)


end
